theory Spec2Isabelle
  imports Main
begin

section \<open>The CRD deletion webhook: data model\<close>

text \<open>
  Embedding of \<^verbatim>\<open>pkg/controller/common/webhook/customresourcedeletion.go\<close>.
  A Go \<^verbatim>\<open>error\<close> value is modelled by the message it carries; byte slices and Go strings
  are \<open>string\<close> (a list of bytes).
\<close>

datatype error = Error string

text \<open>\<^verbatim>\<open>schema.GroupVersionKind\<close>: the triple identifying a type of API objects.\<close>

record GroupVersionKind =
  Group :: string
  Version :: string
  Kind :: string

text \<open>
  \<^verbatim>\<open>extensionsv1.CustomResourceDefinition\<close>, restricted to what can carry a group, a
  version or a kind: the type metadata of the object itself (its apiVersion and kind, as the
  accessor \<^verbatim>\<open>GroupVersionKind()\<close> of the object returns them) and the group, kind and
  versions that the definition declares in its spec.
\<close>

record CustomResourceDefinitionSpec =
  spec_Group :: string
  spec_Names_Kind :: string
  spec_Versions :: "string list"

record CustomResourceDefinition =
  TypeMeta :: GroupVersionKind
  Spec :: CustomResourceDefinitionSpec

definition crd_GroupVersionKind :: "CustomResourceDefinition \<Rightarrow> GroupVersionKind" where
  "crd_GroupVersionKind crd = TypeMeta crd"

text \<open>\<^verbatim>\<open>admission.Request\<close>: the fields of the admission request.\<close>

datatype Operation = Create | Update | Delete | Connect

record Request =
  UID :: string
  Name :: string
  Namespace :: string
  Operation :: Operation
  Object :: string
  OldObject :: string

text \<open>
  \<^verbatim>\<open>admission.Response\<close>, by the constructor that built it: \<^verbatim>\<open>admission.Allowed(msg)\<close>,
  \<^verbatim>\<open>admission.Denied(msg)\<close> and \<^verbatim>\<open>admission.Errored(code, err)\<close>.
\<close>

datatype Response = Allowed string | Denied string | Errored nat error

definition StatusBadRequest :: nat where
  "StatusBadRequest = 400"

text \<open>
  The webhook. \<open>client\<close> is the \<^verbatim>\<open>List\<close> method of \<^verbatim>\<open>k8s.Client\<close>: given the
  GroupVersionKind set on the list object and the namespace of the \<^verbatim>\<open>InNamespace\<close>
  option, it returns an error or the items it stored in the list. \<open>decoder\<close> is
  \<^verbatim>\<open>decoder.DecodeRaw\<close>: an error, or the object decoded from the raw bytes.
  \<open>managedNamespace\<close> is the string set in the order in which \<^verbatim>\<open>AsSlice()\<close> enumerates it
  (package \<^verbatim>\<open>set\<close> is not part of the file; every order is considered).
\<close>

type_synonym 'o Client = "GroupVersionKind \<Rightarrow> string \<Rightarrow> error + 'o list"

record 'o crdDeletionWebhook =
  client :: "'o Client"
  decoder :: "string \<Rightarrow> error + CustomResourceDefinition"
  managedNamespace :: "string list"

text \<open>
  What a call of the handler does besides returning: the \<^verbatim>\<open>List\<close> calls it issues
  (GroupVersionKind of the list and namespace, in order) and the entries it writes with
  \<^verbatim>\<open>lslog.Error\<close> (error, message, key, value).
\<close>

record effects =
  queries :: "(GroupVersionKind \<times> string) list"
  logged :: "(error \<times> string \<times> string \<times> string) list"

definition no_effects :: effects where
  "no_effects = \<lparr>queries = [], logged = []\<rparr>"

section \<open>The operations\<close>

text \<open>\<^verbatim>\<open>slices.Contains\<close>: a linear search comparing with \<^verbatim>\<open>==\<close>.\<close>

fun Contains :: "string list \<Rightarrow> string \<Rightarrow> bool" where
  "Contains [] v = False"
| "Contains (s # ss) v = (if s = v then True else Contains ss v)"

definition isElasticCRD :: "GroupVersionKind \<Rightarrow> bool" where
  "isElasticCRD gvk =
     Contains
       [''agent.k8s.elastic.co'',
        ''apm.k8s.elastic.co'',
        ''autoscaling.k8s.elastic.co'',
        ''beat.k8s.elastic.co'',
        ''elasticsearch.k8s.elastic.co'',
        ''enterprise-search.k8s.elastic.co'',
        ''kibana.k8s.elastic.co'',
        ''logstash.k8s.elastic.co'',
        ''maps.k8s.elastic.co'',
        ''stackconfigpolicy.k8s.elastic.co'']
       (Group gvk)"

text \<open>
  The loop of \<^verbatim>\<open>isInUse\<close> over the namespaces, with the effects so far. Each iteration
  issues one \<^verbatim>\<open>List\<close>; an error is logged and returns true, a non-empty list of items
  returns true, otherwise the loop goes on; after the last namespace it returns false.
\<close>

fun isInUse_loop ::
  "'o Client \<Rightarrow> GroupVersionKind \<Rightarrow> string list \<Rightarrow> effects \<Rightarrow> bool \<times> effects" where
  "isInUse_loop cl ul [] eff = (False, eff)"
| "isInUse_loop cl ul (ns # rest) eff =
     (let eff1 = eff\<lparr>queries := queries eff @ [(ul, ns)]\<rparr> in
      case cl ul ns of
        Inl err \<Rightarrow>
          (True, eff1\<lparr>logged := logged eff1 @
             [(err, ''Failed to list resources'', ''namespace'', ns)]\<rparr>)
      | Inr items \<Rightarrow>
          if length items > 0 then (True, eff1)
          else isInUse_loop cl ul rest eff1)"

definition isInUse ::
  "'o crdDeletionWebhook \<Rightarrow> CustomResourceDefinition \<Rightarrow> effects \<Rightarrow> bool \<times> effects" where
  "isInUse wh crd eff =
     (let ul = \<lparr>Group = Group (crd_GroupVersionKind crd),
                Version = Version (crd_GroupVersionKind crd),
                Kind = Kind (crd_GroupVersionKind crd)\<rparr>
      in isInUse_loop (client wh) ul (managedNamespace wh) eff)"

text \<open>
  \<^verbatim>\<open>Handle\<close>. The conjunction \<^verbatim>\<open>&&\<close> evaluates \<^verbatim>\<open>isInUse\<close> only when
  \<^verbatim>\<open>isElasticCRD\<close> is true.
\<close>

definition Handle :: "'o crdDeletionWebhook \<Rightarrow> Request \<Rightarrow> Response \<times> effects" where
  "Handle wh req =
     (case decoder wh (Object req) of
        Inl err \<Rightarrow> (Errored StatusBadRequest err, no_effects)
      | Inr crd \<Rightarrow>
          if isElasticCRD (crd_GroupVersionKind crd) then
            (case isInUse wh crd no_effects of
               (True, eff) \<Rightarrow> (Denied ''deletion of Elastic CRDs is not allowed'', eff)
             | (False, eff) \<Rightarrow> (Allowed '''', eff))
          else (Allowed '''', no_effects))"

section \<open>Concrete instances\<close>

text \<open>
  A definition object whose own type metadata names a protected group, and one whose own
  group is not protected while its spec declares a protected group.
\<close>

definition es_gvk :: GroupVersionKind where
  "es_gvk = \<lparr>Group = ''elasticsearch.k8s.elastic.co'', Version = ''v1'',
             Kind = ''Elasticsearch''\<rparr>"

definition es_crd :: CustomResourceDefinition where
  "es_crd =
     \<lparr>TypeMeta = es_gvk,
      Spec = \<lparr>spec_Group = ''elasticsearch.k8s.elastic.co'',
              spec_Names_Kind = ''Elasticsearch'',
              spec_Versions = [''v1'', ''v1beta1'']\<rparr>\<rparr>"

definition unrelated_crd :: CustomResourceDefinition where
  "unrelated_crd =
     \<lparr>TypeMeta = \<lparr>Group = ''unrelated.example.com'', Version = ''v1'', Kind = ''Widget''\<rparr>,
      Spec = \<lparr>spec_Group = ''kibana.k8s.elastic.co'',
              spec_Names_Kind = ''Kibana'',
              spec_Versions = [''v1'']\<rparr>\<rparr>"

definition example_decoder :: "string \<Rightarrow> error + CustomResourceDefinition" where
  "example_decoder raw =
     (if raw = ''es'' then Inr es_crd
      else if raw = ''unrelated'' then Inr unrelated_crd
      else Inl (Error ''there is no content to decode''))"

text \<open>
  A store with no instance in \<open>ns-a\<close> and in \<open>ns-d\<close>, one instance of the listed type in
  \<open>ns-b\<close>, and failing queries everywhere else.
\<close>

definition example_client :: "string Client" where
  "example_client gvk ns =
     (if ns = ''ns-a'' \<or> ns = ''ns-d'' then Inr []
      else if ns = ''ns-b'' then Inr [Kind gvk @ ''/quickstart'']
      else Inl (Error ''connection refused''))"

definition example_webhook :: "string list \<Rightarrow> string crdDeletionWebhook" where
  "example_webhook nss =
     \<lparr>client = example_client, decoder = example_decoder, managedNamespace = nss\<rparr>"

definition example_request :: "Operation \<Rightarrow> string \<Rightarrow> Request" where
  "example_request oper raw =
     \<lparr>UID = ''705ab4f5'', Name = ''elasticsearches.elasticsearch.k8s.elastic.co'',
      Namespace = '''', Operation = oper, Object = raw, OldObject = ''''\<rparr>"

section \<open>The usage checker's loop\<close>

lemma gvk_rebuild:
  "\<lparr>Group = Group (g::GroupVersionKind), Version = Version g, Kind = Kind g\<rparr> = g"
  by simp

lemma isInUse_loop_skip_empty:
  "\<forall>ns\<in>set pre. cl ul ns = Inr [] \<Longrightarrow>
   isInUse_loop cl ul (pre @ rest) eff =
   isInUse_loop cl ul rest (eff\<lparr>queries := queries eff @ map (Pair ul) pre\<rparr>)"
  by (induction pre arbitrary: eff) simp_all

lemma isInUse_loop_all_empty:
  "\<forall>ns\<in>set nss. cl ul ns = Inr [] \<Longrightarrow>
   isInUse_loop cl ul nss eff = (False, eff\<lparr>queries := queries eff @ map (Pair ul) nss\<rparr>)"
  using isInUse_loop_skip_empty [of nss cl ul "[]" eff] by simp

lemma isInUse_loop_first_positive:
  assumes "\<forall>m\<in>set pre. cl ul m = Inr []" and "cl ul ns = Inr items" and "items \<noteq> []"
  shows "isInUse_loop cl ul (pre @ ns # post) eff =
         (True, eff\<lparr>queries := queries eff @ map (Pair ul) (pre @ [ns])\<rparr>)"
  using assms by (simp add: isInUse_loop_skip_empty)

lemma isInUse_loop_first_error:
  assumes "\<forall>m\<in>set pre. cl ul m = Inr []" and "cl ul ns = Inl err"
  shows "isInUse_loop cl ul (pre @ ns # post) eff =
         (True, eff\<lparr>queries := queries eff @ map (Pair ul) (pre @ [ns]),
                    logged := logged eff @
                      [(err, ''Failed to list resources'', ''namespace'', ns)]\<rparr>)"
  using assms by (simp add: isInUse_loop_skip_empty)

lemma isInUse_loop_verdict:
  "fst (isInUse_loop cl ul nss eff) = (\<exists>ns\<in>set nss. cl ul ns \<noteq> Inr [])"
  by (induction nss arbitrary: eff) (auto simp: Let_def split: sum.splits)

lemma isInUse_loop_queries:
  "\<exists>k\<le>length nss.
     queries (snd (isInUse_loop cl ul nss eff)) = queries eff @ map (Pair ul) (take k nss)"
proof (induction nss arbitrary: eff)
  case Nil
  then show ?case by simp
next
  case (Cons ns rest)
  let ?eff1 = "eff\<lparr>queries := queries eff @ [(ul, ns)]\<rparr>"
  show ?case
  proof (cases "cl ul ns = Inr []")
    case True
    from Cons.IH [of ?eff1] obtain k where k: "k \<le> length rest"
      "queries (snd (isInUse_loop cl ul rest ?eff1)) = queries ?eff1 @ map (Pair ul) (take k rest)"
      by blast
    with True have "queries (snd (isInUse_loop cl ul (ns # rest) eff)) =
        queries eff @ map (Pair ul) (take (Suc k) (ns # rest))"
      by simp
    with k(1) show ?thesis by (intro exI [of _ "Suc k"]) simp
  next
    case False
    then have "queries (snd (isInUse_loop cl ul (ns # rest) eff)) =
        queries eff @ map (Pair ul) (take (Suc 0) (ns # rest))"
      by (cases "cl ul ns") (auto simp: Let_def)
    then show ?thesis by (intro exI [of _ "Suc 0"]) simp
  qed
qed

lemma isInUse_unfold:
  "isInUse wh crd eff =
   isInUse_loop (client wh) (crd_GroupVersionKind crd) (managedNamespace wh) eff"
  unfolding isInUse_def Let_def gvk_rebuild ..

lemma Handle_decoded:
  assumes "decoder wh (Object req) = Inr crd"
  shows "Handle wh req =
     (if isElasticCRD (crd_GroupVersionKind crd) then
        (case isInUse_loop (client wh) (crd_GroupVersionKind crd) (managedNamespace wh)
                no_effects of
           (True, eff) \<Rightarrow> (Denied ''deletion of Elastic CRDs is not allowed'', eff)
         | (False, eff) \<Rightarrow> (Allowed '''', eff))
      else (Allowed '''', no_effects))"
  using assms by (simp add: Handle_def isInUse_unfold)

lemma Handle_verdict:
  "fst (Handle wh req) =
     (case decoder wh (Object req) of
        Inl err \<Rightarrow> Errored StatusBadRequest err
      | Inr crd \<Rightarrow>
          if isElasticCRD (crd_GroupVersionKind crd) \<and>
             (\<exists>ns\<in>set (managedNamespace wh). client wh (crd_GroupVersionKind crd) ns \<noteq> Inr [])
          then Denied ''deletion of Elastic CRDs is not allowed''
          else Allowed '''')"
proof (cases "decoder wh (Object req)")
  case (Inl err)
  then show ?thesis by (simp add: Handle_def)
next
  case (Inr crd)
  let ?loop = "isInUse_loop (client wh) (crd_GroupVersionKind crd) (managedNamespace wh)
                 no_effects"
  obtain b eff where l: "?loop = (b, eff)" by (cases ?loop)
  then have "b = (\<exists>ns\<in>set (managedNamespace wh).
                    client wh (crd_GroupVersionKind crd) ns \<noteq> Inr [])"
    using isInUse_loop_verdict
      [of "client wh" "crd_GroupVersionKind crd" "managedNamespace wh" no_effects]
    by simp
  with l Inr show ?thesis
    by (cases b) (simp_all add: Handle_decoded [OF Inr])
qed

lemmas example_defs =
  es_gvk_def es_crd_def unrelated_crd_def example_decoder_def example_client_def
  example_webhook_def example_request_def crd_GroupVersionKind_def

section \<open>The protected-type classifier\<close>

lemma Contains_iff_member: "Contains ss v = (v \<in> set ss)"
  by (induction ss) auto

text \<open>
  C7. The classifier \<open>isElasticCRD\<close> is a total boolean function of the group alone: it is
  true exactly when the group equals one of the ten hard-coded group names. A prefix, a
  suffix or a wildcard pattern of a protected group is not protected, and the empty group
  gives false.
\<close>

theorem isElasticCRD_exact_membership:
  "isElasticCRD gvk =
     (Group gvk \<in>
        {''agent.k8s.elastic.co'', ''apm.k8s.elastic.co'', ''autoscaling.k8s.elastic.co'',
         ''beat.k8s.elastic.co'', ''elasticsearch.k8s.elastic.co'',
         ''enterprise-search.k8s.elastic.co'', ''kibana.k8s.elastic.co'',
         ''logstash.k8s.elastic.co'', ''maps.k8s.elastic.co'',
         ''stackconfigpolicy.k8s.elastic.co''})
   \<and> isElasticCRD \<lparr>Group = '''', Version = v, Kind = k\<rparr> = False
   \<and> isElasticCRD \<lparr>Group = ''k8s.elastic.co'', Version = v, Kind = k\<rparr> = False
   \<and> isElasticCRD \<lparr>Group = ''agent'', Version = v, Kind = k\<rparr> = False
   \<and> isElasticCRD \<lparr>Group = ''*.k8s.elastic.co'', Version = v, Kind = k\<rparr> = False
   \<and> isElasticCRD \<lparr>Group = ''agent.k8s.elastic.co.'', Version = v, Kind = k\<rparr> = False"
  unfolding isElasticCRD_def Contains_iff_member by simp

section \<open>The verdicts of the handler\<close>

text \<open>
  C1. For a decoded object whose GroupVersionKind has a protected group: when the managed
  namespaces are enumerated as \<open>pre @ ns # post\<close>, the \<^verbatim>\<open>List\<close> of every namespace of
  \<open>pre\<close> succeeds with no item and the \<^verbatim>\<open>List\<close> of \<open>ns\<close> succeeds with at least one
  item, the handler answers Denied, and the queries it issued are exactly those of
  \<open>pre\<close> and \<open>ns\<close>, in order: no namespace of \<open>post\<close> is queried, and nothing is logged.
\<close>

theorem Handle_denies_on_first_namespace_with_instances:
  assumes "decoder wh (Object req) = Inr crd"
    and "isElasticCRD (crd_GroupVersionKind crd)"
    and "managedNamespace wh = pre @ ns # post"
    and "\<forall>m\<in>set pre. client wh (crd_GroupVersionKind crd) m = Inr []"
    and "client wh (crd_GroupVersionKind crd) ns = Inr items"
    and "length items \<ge> 1"
  shows "Handle wh req =
           (Denied ''deletion of Elastic CRDs is not allowed'',
            \<lparr>queries = map (Pair (crd_GroupVersionKind crd)) (pre @ [ns]), logged = []\<rparr>)"
proof -
  from assms(6) have "items \<noteq> []" by auto
  with assms(3-5) have
    "isInUse_loop (client wh) (crd_GroupVersionKind crd) (managedNamespace wh) no_effects =
      (True, \<lparr>queries = map (Pair (crd_GroupVersionKind crd)) (pre @ [ns]), logged = []\<rparr>)"
    by (simp add: isInUse_loop_first_positive no_effects_def)
  with assms(2) show ?thesis by (simp add: Handle_decoded [OF assms(1)])
qed

theorem Handle_denies_on_first_namespace_with_instances_witness:
  "Handle (example_webhook [''ns-a'', ''ns-d'', ''ns-b'', ''ns-c'', ''ns-a''])
          (example_request Delete ''es'') =
     (Denied ''deletion of Elastic CRDs is not allowed'',
      \<lparr>queries = [(es_gvk, ''ns-a''), (es_gvk, ''ns-d''), (es_gvk, ''ns-b'')], logged = []\<rparr>)"
  using Handle_denies_on_first_namespace_with_instances
    [of "example_webhook [''ns-a'', ''ns-d'', ''ns-b'', ''ns-c'', ''ns-a'']"
        "example_request Delete ''es''" es_crd "[''ns-a'', ''ns-d'']" "''ns-b''"
        "[''ns-c'', ''ns-a'']" "[''Elasticsearch/quickstart'']"]
  by (simp add: example_defs isElasticCRD_def)

text \<open>
  C2. For a decoded object whose GroupVersionKind has a protected group: when the managed
  namespaces are enumerated as \<open>pre @ ns # post\<close>, the \<^verbatim>\<open>List\<close> of every namespace of
  \<open>pre\<close> succeeds with no item and the \<^verbatim>\<open>List\<close> of \<open>ns\<close> returns an error, the handler
  answers Denied and never an Errored response, the error is logged once with the namespace,
  and the queries issued are exactly those of \<open>pre\<close> and \<open>ns\<close>: none of \<open>post\<close>.
\<close>

theorem Handle_denies_on_first_query_error:
  assumes "decoder wh (Object req) = Inr crd"
    and "isElasticCRD (crd_GroupVersionKind crd)"
    and "managedNamespace wh = pre @ ns # post"
    and "\<forall>m\<in>set pre. client wh (crd_GroupVersionKind crd) m = Inr []"
    and "client wh (crd_GroupVersionKind crd) ns = Inl err"
  shows "Handle wh req =
           (Denied ''deletion of Elastic CRDs is not allowed'',
            \<lparr>queries = map (Pair (crd_GroupVersionKind crd)) (pre @ [ns]),
             logged = [(err, ''Failed to list resources'', ''namespace'', ns)]\<rparr>)
         \<and> fst (Handle wh req) \<noteq> Errored code cause"
proof -
  from assms(3-5) have
    "isInUse_loop (client wh) (crd_GroupVersionKind crd) (managedNamespace wh) no_effects =
      (True, \<lparr>queries = map (Pair (crd_GroupVersionKind crd)) (pre @ [ns]),
              logged = [(err, ''Failed to list resources'', ''namespace'', ns)]\<rparr>)"
    by (simp add: isInUse_loop_first_error no_effects_def)
  with assms(2) show ?thesis by (simp add: Handle_decoded [OF assms(1)])
qed

theorem Handle_denies_on_first_query_error_witness:
  "Handle (example_webhook [''ns-a'', ''ns-c'', ''ns-b''])
          (example_request Delete ''es'') =
     (Denied ''deletion of Elastic CRDs is not allowed'',
      \<lparr>queries = [(es_gvk, ''ns-a''), (es_gvk, ''ns-c'')],
       logged = [(Error ''connection refused'', ''Failed to list resources'',
                  ''namespace'', ''ns-c'')]\<rparr>)"
  using Handle_denies_on_first_query_error
    [of "example_webhook [''ns-a'', ''ns-c'', ''ns-b'']"
        "example_request Delete ''es''" es_crd "[''ns-a'']" "''ns-c''"
        "[''ns-b'']" "Error ''connection refused''"]
  by (simp add: example_defs isElasticCRD_def)

text \<open>
  C3. When the object decodes and the group of its GroupVersionKind is not protected, the
  handler answers Allowed with the empty message, whatever the store and the namespaces
  are, and it issues no \<^verbatim>\<open>List\<close> query and logs nothing.
\<close>

theorem Handle_allows_unprotected_without_query:
  assumes "decoder wh (Object req) = Inr crd"
    and "\<not> isElasticCRD (crd_GroupVersionKind crd)"
  shows "Handle wh req = (Allowed '''', \<lparr>queries = [], logged = []\<rparr>)"
  using assms by (simp add: Handle_def no_effects_def)

theorem Handle_allows_unprotected_without_query_witness:
  "Handle (example_webhook [''ns-b'', ''ns-c'']) (example_request Delete ''unrelated'') =
     (Allowed '''', \<lparr>queries = [], logged = []\<rparr>)"
  using Handle_allows_unprotected_without_query
    [of "example_webhook [''ns-b'', ''ns-c'']" "example_request Delete ''unrelated''"
        unrelated_crd]
  by (simp add: example_defs isElasticCRD_def)

text \<open>
  C4. For a decoded object whose GroupVersionKind has a protected group: when the
  \<^verbatim>\<open>List\<close> of every managed namespace succeeds with no item, the handler answers
  Allowed, having queried every managed namespace once, in order.
\<close>

theorem Handle_allows_when_no_namespace_has_instances:
  assumes "decoder wh (Object req) = Inr crd"
    and "isElasticCRD (crd_GroupVersionKind crd)"
    and "\<forall>ns\<in>set (managedNamespace wh). client wh (crd_GroupVersionKind crd) ns = Inr []"
  shows "Handle wh req =
           (Allowed '''',
            \<lparr>queries = map (Pair (crd_GroupVersionKind crd)) (managedNamespace wh),
             logged = []\<rparr>)"
  using assms(2,3)
  by (simp add: Handle_decoded [OF assms(1)] isInUse_loop_all_empty no_effects_def)

theorem Handle_allows_when_no_namespace_has_instances_witness:
  "Handle (example_webhook [''ns-a'', ''ns-d'']) (example_request Delete ''es'') =
     (Allowed '''', \<lparr>queries = [(es_gvk, ''ns-a''), (es_gvk, ''ns-d'')], logged = []\<rparr>)"
  using Handle_allows_when_no_namespace_has_instances
    [of "example_webhook [''ns-a'', ''ns-d'']" "example_request Delete ''es''" es_crd]
  by (simp add: example_defs isElasticCRD_def)

text \<open>
  C5. When the raw object does not decode, the handler answers Errored with the status
  \<^verbatim>\<open>http.StatusBadRequest\<close>, a client-error code (400), and the decoder's error as the
  cause; it issues no \<^verbatim>\<open>List\<close> query. No property of the object is consulted: the
  statement holds for every webhook and every request.
\<close>

theorem Handle_decode_failure:
  assumes "decoder wh (Object req) = Inl err"
  shows "Handle wh req = (Errored StatusBadRequest err, \<lparr>queries = [], logged = []\<rparr>)
         \<and> 400 \<le> StatusBadRequest \<and> StatusBadRequest < 500"
  using assms by (simp add: Handle_def no_effects_def StatusBadRequest_def)

theorem Handle_decode_failure_witness:
  "Handle (example_webhook [''ns-b'', ''ns-c'']) (example_request Delete ''{'') =
     (Errored 400 (Error ''there is no content to decode''), \<lparr>queries = [], logged = []\<rparr>)"
  using Handle_decode_failure
    [of "example_webhook [''ns-b'', ''ns-c'']" "example_request Delete ''{''"
        "Error ''there is no content to decode''"]
  by (simp add: example_defs StatusBadRequest_def)

text \<open>
  C6, as the specification states it, fails: in the scenario with the managed namespaces
  \<open>ns-a\<close> and \<open>ns-b\<close>, a decoded object of group \<open>elasticsearch.k8s.elastic.co\<close>, no
  instance in \<open>ns-a\<close> and one instance in \<open>ns-b\<close>, the response is not Denied with the
  reason \<open>deletion of protected resource-type is not allowed\<close>.
\<close>

theorem Handle_scenario_reason_counterexample:
  "set (managedNamespace (example_webhook [''ns-a'', ''ns-b''])) = {''ns-a'', ''ns-b''}
   \<and> decoder (example_webhook [''ns-a'', ''ns-b'']) (Object (example_request Delete ''es''))
       = Inr es_crd
   \<and> Group (crd_GroupVersionKind es_crd) = ''elasticsearch.k8s.elastic.co''
   \<and> client (example_webhook [''ns-a'', ''ns-b'']) (crd_GroupVersionKind es_crd) ''ns-a''
       = Inr []
   \<and> client (example_webhook [''ns-a'', ''ns-b'']) (crd_GroupVersionKind es_crd) ''ns-b''
       = Inr [''Elasticsearch/quickstart'']
   \<and> fst (Handle (example_webhook [''ns-a'', ''ns-b'']) (example_request Delete ''es''))
       \<noteq> Denied ''deletion of protected resource-type is not allowed''"
  by (simp add: example_defs Handle_def isInUse_unfold isElasticCRD_def no_effects_def)

text \<open>
  C6, amended. In that scenario, in whichever order the two namespaces are enumerated,
  the handler answers Denied with the reason \<open>deletion of Elastic CRDs is not allowed\<close>.
\<close>

theorem Handle_scenario_denied:
  assumes "set (managedNamespace wh) = {''ns-a'', ''ns-b''}"
    and "decoder wh (Object req) = Inr crd"
    and "Group (crd_GroupVersionKind crd) = ''elasticsearch.k8s.elastic.co''"
    and "client wh (crd_GroupVersionKind crd) ''ns-a'' = Inr []"
    and "client wh (crd_GroupVersionKind crd) ''ns-b'' = Inr [x]"
  shows "fst (Handle wh req) = Denied ''deletion of Elastic CRDs is not allowed''"
proof -
  from assms(3) have prot: "isElasticCRD (crd_GroupVersionKind crd)"
    by (simp add: isElasticCRD_def)
  from assms(1,5) have
    "\<exists>ns\<in>set (managedNamespace wh). client wh (crd_GroupVersionKind crd) ns \<noteq> Inr []"
    by auto
  then have "fst (isInUse_loop (client wh) (crd_GroupVersionKind crd) (managedNamespace wh)
                  no_effects)"
    by (simp only: isInUse_loop_verdict)
  then obtain eff where
    "isInUse_loop (client wh) (crd_GroupVersionKind crd) (managedNamespace wh) no_effects =
       (True, eff)"
    by (cases "isInUse_loop (client wh) (crd_GroupVersionKind crd) (managedNamespace wh)
                 no_effects") simp
  with prot show ?thesis
    by (simp add: Handle_decoded [OF assms(2)])
qed

theorem Handle_scenario_denied_witness:
  "fst (Handle (example_webhook [''ns-b'', ''ns-a'']) (example_request Delete ''es'')) =
     Denied ''deletion of Elastic CRDs is not allowed''"
  using Handle_scenario_denied
    [of "example_webhook [''ns-b'', ''ns-a'']" "example_request Delete ''es''" es_crd
        "''Elasticsearch/quickstart''"]
  by (simp add: example_defs insert_commute)

text \<open>
  C8. For a request that decodes to \<open>crd\<close>, the response is computed from one triple, the
  GroupVersionKind of the decoded object itself (its type metadata): the classifier is
  applied to it and the loop lists with it, so every \<^verbatim>\<open>List\<close> query issued carries
  exactly this triple, and it is a triple the classifier accepted. The spec of the
  definition plays no part: replacing it by any other spec \<open>s\<close> in the decoded object
  leaves the response and the queries unchanged.
\<close>

theorem Handle_uses_object_GroupVersionKind:
  assumes "decoder wh (Object req) = Inr crd"
  shows "Handle wh req =
           (if isElasticCRD (TypeMeta crd) then
              (case isInUse_loop (client wh) (TypeMeta crd) (managedNamespace wh) no_effects of
                 (True, eff) \<Rightarrow> (Denied ''deletion of Elastic CRDs is not allowed'', eff)
               | (False, eff) \<Rightarrow> (Allowed '''', eff))
            else (Allowed '''', no_effects))
         \<and> (\<forall>q\<in>set (queries (snd (Handle wh req))).
               fst q = TypeMeta crd \<and> isElasticCRD (fst q))
         \<and> Handle (wh\<lparr>decoder := (decoder wh)(Object req := Inr (crd\<lparr>Spec := s\<rparr>))\<rparr>) req =
             Handle wh req"
proof -
  let ?g = "TypeMeta crd"
  let ?loop = "isInUse_loop (client wh) ?g (managedNamespace wh) no_effects"
  have h: "Handle wh req =
           (if isElasticCRD ?g then
              (case ?loop of
                 (True, eff) \<Rightarrow> (Denied ''deletion of Elastic CRDs is not allowed'', eff)
               | (False, eff) \<Rightarrow> (Allowed '''', eff))
            else (Allowed '''', no_effects))"
    using Handle_decoded [OF assms] by (simp add: crd_GroupVersionKind_def)
  obtain k where "queries (snd ?loop) = map (Pair ?g) (take k (managedNamespace wh))"
    using isInUse_loop_queries [of "managedNamespace wh" "client wh" ?g no_effects]
    by (auto simp: no_effects_def)
  then have "\<forall>q\<in>set (queries (snd ?loop)). fst q = ?g" by auto
  then have q: "\<forall>q\<in>set (queries (snd (Handle wh req))). fst q = ?g \<and> isElasticCRD (fst q)"
    unfolding h by (auto simp: no_effects_def split: prod.splits bool.splits)
  have "decoder (wh\<lparr>decoder := (decoder wh)(Object req := Inr (crd\<lparr>Spec := s\<rparr>))\<rparr>) (Object req)
        = Inr (crd\<lparr>Spec := s\<rparr>)"
    by simp
  from Handle_decoded [OF this]
  have s: "Handle (wh\<lparr>decoder := (decoder wh)(Object req := Inr (crd\<lparr>Spec := s\<rparr>))\<rparr>) req =
             Handle wh req"
    unfolding h by (simp add: crd_GroupVersionKind_def)
  from h q s show ?thesis by blast
qed

theorem Handle_uses_object_GroupVersionKind_witness:
  "Handle (example_webhook [''ns-a'', ''ns-b'']) (example_request Delete ''unrelated'') =
     (Allowed '''', no_effects)
   \<and> spec_Group (Spec unrelated_crd) = ''kibana.k8s.elastic.co''
   \<and> Handle (example_webhook [''ns-a'', ''ns-b'']) (example_request Delete ''es'') =
       (Denied ''deletion of Elastic CRDs is not allowed'',
        \<lparr>queries = [(es_gvk, ''ns-a''), (es_gvk, ''ns-b'')], logged = []\<rparr>)
   \<and> Handle ((example_webhook [''ns-a'', ''ns-b''])
         \<lparr>decoder := example_decoder
            (''es'' := Inr (es_crd\<lparr>Spec := \<lparr>spec_Group = ''unrelated.example.com'',
                 spec_Names_Kind = ''Widget'', spec_Versions = []\<rparr>\<rparr>))\<rparr>)
        (example_request Delete ''es'') =
       (Denied ''deletion of Elastic CRDs is not allowed'',
        \<lparr>queries = [(es_gvk, ''ns-a''), (es_gvk, ''ns-b'')], logged = []\<rparr>)"
  using Handle_uses_object_GroupVersionKind
    [of "example_webhook [''ns-a'', ''ns-b'']" "example_request Delete ''unrelated''"
        unrelated_crd]
    Handle_uses_object_GroupVersionKind
    [of "example_webhook [''ns-a'', ''ns-b'']" "example_request Delete ''es''" es_crd
        "\<lparr>spec_Group = ''unrelated.example.com'',
                 spec_Names_Kind = ''Widget'', spec_Versions = []\<rparr>"]
  by (simp add: example_defs isElasticCRD_def no_effects_def)

text \<open>
  C9. When there is no managed namespace, for every request that decodes (protected group
  or not) the usage check issues no \<^verbatim>\<open>List\<close> query and returns false, and the handler
  answers Allowed.
\<close>

theorem Handle_allows_when_no_managed_namespace:
  assumes "managedNamespace wh = []"
    and "decoder wh (Object req) = Inr crd"
  shows "isInUse wh crd no_effects = (False, \<lparr>queries = [], logged = []\<rparr>)
         \<and> Handle wh req = (Allowed '''', \<lparr>queries = [], logged = []\<rparr>)"
  using assms by (simp add: Handle_def isInUse_def no_effects_def)

theorem Handle_allows_when_no_managed_namespace_witness:
  "isElasticCRD (crd_GroupVersionKind es_crd)
   \<and> isInUse (example_webhook []) es_crd no_effects = (False, \<lparr>queries = [], logged = []\<rparr>)
   \<and> Handle (example_webhook []) (example_request Delete ''es'') =
       (Allowed '''', \<lparr>queries = [], logged = []\<rparr>)"
  using Handle_allows_when_no_managed_namespace
    [of "example_webhook []" "example_request Delete ''es''" es_crd]
  by (simp add: example_defs isElasticCRD_def)

text \<open>
  C10. For a fixed store, decoder and set of managed namespaces, the verdict of the handler
  depends on the request through its \<open>Object\<close> bytes only: two requests with the same
  \<open>Object\<close> get the same response, whatever their operation, name, namespace, UID and old
  object are, and in whichever order the namespace set is enumerated at each of the two
  calls. When the enumeration order is the same as well, the queries and log entries
  coincide too.
\<close>

theorem Handle_depends_on_Object_only:
  assumes "Object req = Object req'"
    and "client wh' = client wh"
    and "decoder wh' = decoder wh"
    and "set (managedNamespace wh') = set (managedNamespace wh)"
  shows "fst (Handle wh req) = fst (Handle wh' req')
         \<and> Handle wh req = Handle wh req'"
proof -
  have "fst (Handle wh req) = fst (Handle wh' req')"
    unfolding Handle_verdict using assms by (simp split: sum.splits)
  moreover have "Handle wh req = Handle wh req'"
    using assms(1) by (simp add: Handle_def)
  ultimately show ?thesis by simp
qed

theorem Handle_depends_on_Object_only_witness:
  "fst (Handle (example_webhook [''ns-a'', ''ns-b''])
          \<lparr>UID = ''0001'', Name = ''a'', Namespace = ''x'', Operation = Create,
           Object = ''es'', OldObject = ''unrelated''\<rparr>) =
   fst (Handle (example_webhook [''ns-b'', ''ns-a'']) (example_request Delete ''es''))
   \<and> fst (Handle (example_webhook [''ns-b'', ''ns-a'']) (example_request Delete ''es'')) =
       Denied ''deletion of Elastic CRDs is not allowed''
   \<and> queries (snd (Handle (example_webhook [''ns-a'', ''ns-b''])
          \<lparr>UID = ''0001'', Name = ''a'', Namespace = ''x'', Operation = Create,
           Object = ''es'', OldObject = ''unrelated''\<rparr>)) =
       [(es_gvk, ''ns-a''), (es_gvk, ''ns-b'')]
   \<and> queries (snd (Handle (example_webhook [''ns-b'', ''ns-a''])
          (example_request Delete ''es''))) = [(es_gvk, ''ns-b'')]
   \<and> Handle (example_webhook [''ns-a'', ''ns-b''])
          \<lparr>UID = ''0001'', Name = ''a'', Namespace = ''x'', Operation = Create,
           Object = ''es'', OldObject = ''unrelated''\<rparr> =
       Handle (example_webhook [''ns-a'', ''ns-b'']) (example_request Delete ''es'')"
  using Handle_depends_on_Object_only
    [of "\<lparr>UID = ''0001'', Name = ''a'', Namespace = ''x'', Operation = Create,
          Object = ''es'', OldObject = ''unrelated''\<rparr>"
        "example_request Delete ''es''" "example_webhook [''ns-b'', ''ns-a'']"
        "example_webhook [''ns-a'', ''ns-b'']"]
  by (simp add: example_defs Handle_def isInUse_unfold isElasticCRD_def no_effects_def
        insert_commute)

end
